theory Spec2Isabelle
  imports Complex_Main
begin

section \<open>The SIR epidemic model of SIR\_model.ipynb\<close>

text \<open>
  The notebook defines the right-hand side \<open>deriv\<close> of the SIR equations, a handful of
  top-level constants (population, initial compartments, rates, time grid) and one call of
  an ODE integrator on them. Python's floats are idealised as the reals: every statement
  below is one of exact arithmetic, and says nothing about rounding.
\<close>

subsection \<open>Data\<close>

text \<open>The state vector \<open>y\<close> is the triple \<open>(S, I, R)\<close> of compartment sizes.\<close>

type_synonym state = "real \<times> real \<times> real"

text \<open>
  The one exception the notebook's own code can raise: \<open>deriv\<close> divides by \<open>N\<close>, and
  Python's \<open>/\<close> on numbers raises ZeroDivisionError on a zero divisor.
\<close>

datatype error = ZeroDivisionError

subsection \<open>The right-hand side\<close>

text \<open>
  \<^verbatim>\<open>def deriv(y, t, N, beta, gamma):\<close>
  \<^verbatim>\<open>    S, I, R = y\<close>
  \<^verbatim>\<open>    dSdt = -beta * S * I / N\<close>
  \<^verbatim>\<open>    dIdt = beta * S * I / N - gamma * I\<close>
  \<^verbatim>\<open>    dRdt = gamma * I\<close>
  \<^verbatim>\<open>    return dSdt, dIdt, dRdt\<close>

  Python reads \<open>-beta * S * I / N\<close> as \<open>(((-beta) * S) * I) / N\<close>. Both divisions have
  the divisor \<open>N\<close>, and the first one is evaluated before anything is returned, so a zero
  \<open>N\<close> is an error of the whole call.
\<close>

definition deriv :: "state \<Rightarrow> real \<Rightarrow> real \<Rightarrow> real \<Rightarrow> real \<Rightarrow> error + state" where
  "deriv y t N beta gamma =
     (case y of (S, I, R) \<Rightarrow>
        if N = 0 then Inl ZeroDivisionError
        else
          let dSdt = (((- beta) * S) * I) / N;
              dIdt = ((beta * S) * I) / N - gamma * I;
              dRdt = gamma * I
          in Inr (dSdt, dIdt, dRdt))"

subsection \<open>The notebook's constants\<close>

text \<open>
  \<^verbatim>\<open>N = 1000\<close>
  \<^verbatim>\<open>I0, R0 = 1, 0\<close>
  \<^verbatim>\<open>S0 = N - I0 - R0\<close>
  \<^verbatim>\<open>beta, gamma = 0.2, 1./10\<close>
  \<^verbatim>\<open>t = np.linspace(0, 160, 160)\<close>
  \<^verbatim>\<open>y0 = S0, I0, R0\<close>

  The notebook fixes one configuration. The specification speaks of every configuration, so the
  derived values \<open>S0\<close> and \<open>y0\<close> are functions of the inputs they are computed from, and
  the notebook's own run is their instance at the hard-coded numbers.
\<close>

definition S0 :: "real \<Rightarrow> real \<Rightarrow> real \<Rightarrow> real" where
  "S0 N I0 R0 = N - I0 - R0"

definition y0 :: "real \<Rightarrow> real \<Rightarrow> real \<Rightarrow> state" where
  "y0 N I0 R0 = (S0 N I0 R0, I0, R0)"

text \<open>
  Modelled from the spec: \<open>np.linspace\<close> belongs to NumPy, not to the repository. The
  specification asks of the time grid that it is an ordered sequence of non-decreasing
  time points; \<open>linspace start stop num\<close> is taken as the \<open>num\<close> evenly spaced points
  from \<open>start\<close> to \<open>stop\<close>, both included.
\<close>

definition linspace :: "real \<Rightarrow> real \<Rightarrow> nat \<Rightarrow> real list" where
  "linspace start stop num =
     map (\<lambda>i. start + real i * ((stop - start) / real (num - 1))) [0..<num]"

subsection \<open>The integrator\<close>

text \<open>
  Modelled from the spec: \<open>scipy.integrate.odeint\<close> is an external solver (LSODA, with
  adaptive steps, in floating point) whose code is not part of the repository. The
  specification allows in its place "a simple fixed-step method directly on the output
  grid", and names the 4th-order Runge-Kutta method. That is the integrator modelled here,
  in exact arithmetic: one classical Runge-Kutta step from each grid point to the next, the
  first row of the result being the initial state. An exception raised by the right-hand
  side leaves the integrator, as it leaves \<open>odeint\<close>. What \<open>odeint\<close> does with an empty
  grid is not modelled: the result there is the empty trajectory.
\<close>

definition axpy :: "real \<Rightarrow> state \<Rightarrow> state \<Rightarrow> state" where
  \<comment> \<open>the vector \<open>y + a * k\<close>\<close>
  "axpy a k y =
     (case k of (k1, k2, k3) \<Rightarrow>
      case y of (y1, y2, y3) \<Rightarrow> (y1 + a * k1, y2 + a * k2, y3 + a * k3))"

definition rk4_step ::
  "(state \<Rightarrow> real \<Rightarrow> error + state) \<Rightarrow> real \<Rightarrow> real \<Rightarrow> state \<Rightarrow> error + state" where
  "rk4_step f tn h y =
     (case f y tn of Inl e \<Rightarrow> Inl e | Inr k1 \<Rightarrow>
     (case f (axpy (h / 2) k1 y) (tn + h / 2) of Inl e \<Rightarrow> Inl e | Inr k2 \<Rightarrow>
     (case f (axpy (h / 2) k2 y) (tn + h / 2) of Inl e \<Rightarrow> Inl e | Inr k3 \<Rightarrow>
     (case f (axpy h k3 y) (tn + h) of Inl e \<Rightarrow> Inl e | Inr k4 \<Rightarrow>
        Inr (axpy (h / 6) k1 (axpy (h / 3) k2 (axpy (h / 3) k3 (axpy (h / 6) k4 y))))))))"

fun odeint_from ::
  "(state \<Rightarrow> real \<Rightarrow> error + state) \<Rightarrow> state \<Rightarrow> real \<Rightarrow> real list \<Rightarrow> error + state list" where
  "odeint_from f y tn [] = Inr [y]"
| "odeint_from f y tn (tn' # ts) =
     (case rk4_step f tn (tn' - tn) y of
        Inl e \<Rightarrow> Inl e
      | Inr y' \<Rightarrow>
          (case odeint_from f y' tn' ts of
             Inl e \<Rightarrow> Inl e
           | Inr ys \<Rightarrow> Inr (y # ys)))"

definition odeint ::
  "(state \<Rightarrow> real \<Rightarrow> real \<Rightarrow> real \<Rightarrow> real \<Rightarrow> error + state) \<Rightarrow> state \<Rightarrow> real list \<Rightarrow>
   real \<times> real \<times> real \<Rightarrow> error + state list" where
  "odeint func yinit t args =
     (case args of (N, beta, gamma) \<Rightarrow>
        (case t of
           [] \<Rightarrow> Inr []
         | t0 # ts \<Rightarrow> odeint_from (\<lambda>y s. func y s N beta gamma) yinit t0 ts))"

subsection \<open>The run\<close>

text \<open>
  \<^verbatim>\<open>ret = odeint(deriv, y0, t, args=(N, beta, gamma))\<close>
  \<^verbatim>\<open>S, I, R = ret.T\<close>

  Nothing stands between the constants and the call: the notebook has no check of its
  inputs. \<open>ret\<close> has one row per grid point; its transpose is unpacked into the three
  series.
\<close>

definition ret :: "real \<Rightarrow> real \<Rightarrow> real \<Rightarrow> real \<Rightarrow> real \<Rightarrow> real list \<Rightarrow> error + state list" where
  "ret N I0 R0 beta gamma t = odeint deriv (y0 N I0 R0) t (N, beta, gamma)"

definition S_I_R ::
  "real \<Rightarrow> real \<Rightarrow> real \<Rightarrow> real \<Rightarrow> real \<Rightarrow> real list \<Rightarrow>
   error + (real list \<times> real list \<times> real list)" where
  "S_I_R N I0 R0 beta gamma t =
     (case ret N I0 R0 beta gamma t of
        Inl e \<Rightarrow> Inl e
      | Inr ys \<Rightarrow> Inr (map fst ys, map (fst \<circ> snd) ys, map (snd \<circ> snd) ys))"

text \<open>The notebook's own grid and run.\<close>

definition notebook_t :: "real list" where
  "notebook_t = linspace 0 160 160"

definition notebook_ret :: "error + state list" where
  "notebook_ret = ret 1000 1 0 0.2 (1 / 10) notebook_t"

subsection \<open>The notebook as cells over its global names\<close>

text \<open>
  A notebook is run, and run again, in one kernel: the names a cell binds stay bound for
  the cells and the runs that follow. The global names of the notebook are the fields of
  \<open>globals\<close>, \<open>None\<close> for a name that is not bound; reading such a name raises NameError.
  The three cells that compute are modelled as they are written, each reading the names it
  reads and binding the names it binds; the literals of the first cell are its parameters.
  \<open>deriv\<close> reads no global name: \<open>N\<close>, \<open>beta\<close>, \<open>gamma\<close> and \<open>t\<close> are its parameters and
  \<open>S\<close>, \<open>I\<close>, \<open>R\<close> its local variables.
\<close>

record globals =
  g_N :: "real option"
  g_I0 :: "real option"
  g_R0 :: "real option"
  g_S0 :: "real option"
  g_beta :: "real option"
  g_gamma :: "real option"
  g_t :: "real list option"
  g_y0 :: "state option"
  g_ret :: "state list option"
  g_S :: "real list option"
  g_I :: "real list option"
  g_R :: "real list option"

datatype exn = NameError | Raised error

definition load :: "'a option \<Rightarrow> exn + 'a" where
  "load v = (case v of None \<Rightarrow> Inl NameError | Some x \<Rightarrow> Inr x)"



text \<open>
  \<^verbatim>\<open>ret = odeint(deriv, y0, t, args=(N, beta, gamma))\<close>
  \<^verbatim>\<open>S, I, R = ret.T\<close>
\<close>

definition cell_integrate :: "globals \<Rightarrow> exn + globals" where
  "cell_integrate g =
     (case load (g_y0 g) of Inl e \<Rightarrow> Inl e | Inr y \<Rightarrow>
     (case load (g_t g) of Inl e \<Rightarrow> Inl e | Inr t \<Rightarrow>
     (case load (g_N g) of Inl e \<Rightarrow> Inl e | Inr n \<Rightarrow>
     (case load (g_beta g) of Inl e \<Rightarrow> Inl e | Inr b \<Rightarrow>
     (case load (g_gamma g) of Inl e \<Rightarrow> Inl e | Inr c \<Rightarrow>
     (case odeint deriv y t (n, b, c) of Inl e \<Rightarrow> Inl (Raised e) | Inr ys \<Rightarrow>
        (let g1 = g\<lparr>g_ret := Some ys\<rparr>
         in case load (g_ret g1) of Inl e \<Rightarrow> Inl e | Inr r \<Rightarrow>
              Inr (g1\<lparr>g_S := Some (map fst r), g_I := Some (map (fst \<circ> snd) r),
                      g_R := Some (map (snd \<circ> snd) r)\<rparr>))))))))"



subsection \<open>Notions of the specification\<close>

text \<open>The size of the population in a state: the sum of the three compartments.\<close>

definition population :: "state \<Rightarrow> real" where
  "population y = (case y of (S, I, R) \<Rightarrow> S + I + R)"

text \<open>
  The inputs the specification calls valid, in its words: a positive population, positive
  rates, initial counts that are not negative and do not exceed the population. The
  notebook has no such predicate; it is here to state what the specification asks.
\<close>

definition spec_valid_input :: "real \<Rightarrow> real \<Rightarrow> real \<Rightarrow> real \<Rightarrow> real \<Rightarrow> bool" where
  "spec_valid_input N I0 R0 beta gamma \<longleftrightarrow>
     0 < N \<and> 0 < beta \<and> 0 < gamma \<and> 0 \<le> I0 \<and> 0 \<le> R0 \<and> I0 + R0 \<le> N"

section \<open>Facts about the integrator\<close>

lemma deriv_Inr_iff:
  "deriv (S, I, R) s N beta gamma = Inr k \<longleftrightarrow>
   N \<noteq> 0 \<and> k = (- (beta * S * I / N), beta * S * I / N - gamma * I, gamma * I)"
  by (auto simp add: deriv_def)

lemma deriv_returns: "N \<noteq> 0 \<Longrightarrow> \<exists>k. deriv y s N beta gamma = Inr k"
  by (cases y) (simp add: deriv_def)

lemma deriv_population_zero: "deriv y s N beta gamma = Inr k \<Longrightarrow> population k = 0"
  by (cases y) (auto simp add: deriv_Inr_iff population_def)

lemma population_axpy: "population (axpy a k y) = population y + a * population k"
  by (cases k, cases y) (simp add: population_def axpy_def algebra_simps)

lemma rk4_step_population:
  assumes f: "\<And>z s k. f z s = Inr k \<Longrightarrow> population k = 0"
    and step: "rk4_step f tn h y = Inr y'"
  shows "population y' = population y"
proof -
  from step obtain k1 k2 k3 k4 where
    k: "f y tn = Inr k1" "f (axpy (h / 2) k1 y) (tn + h / 2) = Inr k2"
       "f (axpy (h / 2) k2 y) (tn + h / 2) = Inr k3" "f (axpy h k3 y) (tn + h) = Inr k4"
    and y': "axpy (h / 6) k1 (axpy (h / 3) k2 (axpy (h / 3) k3 (axpy (h / 6) k4 y))) = y'"
    by (auto simp add: rk4_step_def split: sum.splits)
  from k have "population k1 = 0" "population k2 = 0" "population k3 = 0" "population k4 = 0"
    by (auto dest: f)
  then show ?thesis
    unfolding y' [symmetric] by (simp add: population_axpy)
qed

lemma rk4_step_returns:
  assumes f: "\<And>z s. \<exists>k. f z s = Inr k"
  shows "\<exists>y'. rk4_step f tn h y = Inr y'"
proof -
  obtain k1 where k1: "f y tn = Inr k1"
    using f by blast
  obtain k2 where k2: "f (axpy (h / 2) k1 y) (tn + h / 2) = Inr k2"
    using f by blast
  obtain k3 where k3: "f (axpy (h / 2) k2 y) (tn + h / 2) = Inr k3"
    using f by blast
  obtain k4 where k4: "f (axpy h k3 y) (tn + h) = Inr k4"
    using f by blast
  show ?thesis
    by (simp add: rk4_step_def k1 k2 k3 k4 del: split_paired_Ex)
qed

lemma odeint_from_returns:
  assumes f: "\<And>z s. \<exists>k. f z s = Inr k"
  shows "\<exists>ys. odeint_from f y tn ts = Inr ys"
proof (induction ts arbitrary: y tn)
  case Nil
  show ?case by simp
next
  case (Cons tn' ts)
  have "\<exists>y'. rk4_step f tn (tn' - tn) y = Inr y'"
    by (rule rk4_step_returns) (rule f)
  then obtain y' where y': "rk4_step f tn (tn' - tn) y = Inr y'" ..
  obtain ys where "odeint_from f y' tn' ts = Inr ys"
    using Cons.IH by blast
  with y' show ?case by simp
qed

lemma odeint_from_length:
  "odeint_from f y tn ts = Inr ys \<Longrightarrow> length ys = Suc (length ts)"
  by (induction ts arbitrary: y tn ys) (auto split: sum.splits)

lemma odeint_from_hd: "odeint_from f y tn ts = Inr ys \<Longrightarrow> ys \<noteq> [] \<and> hd ys = y"
  by (cases ts) (auto split: sum.splits)

lemma odeint_from_population:
  assumes f: "\<And>z s k. f z s = Inr k \<Longrightarrow> population k = 0"
  shows "odeint_from f y tn ts = Inr ys \<Longrightarrow> \<forall>z \<in> set ys. population z = population y"
proof (induction ts arbitrary: y tn ys)
  case Nil
  then show ?case by auto
next
  case (Cons tn' ts)
  from Cons.prems obtain y' ys' where
    step: "rk4_step f tn (tn' - tn) y = Inr y'"
    and rest: "odeint_from f y' tn' ts = Inr ys'"
    and ys: "ys = y # ys'"
    by (auto split: sum.splits)
  have "population y' = population y"
    using rk4_step_population [OF f step] .
  with Cons.IH [OF rest] ys show ?case by simp
qed

text \<open>
  The signs of the right-hand side on the states of the data model: with no compartment
  negative, a positive population and rates that are not negative, \<open>S\<close> is not growing and
  \<open>R\<close> is not shrinking at that instant.
\<close>

lemma deriv_signs:
  assumes "0 \<le> S" "0 \<le> I" "0 < N" "0 \<le> beta" "0 \<le> gamma"
    and "deriv (S, I, R) s N beta gamma = Inr (dSdt, dIdt, dRdt)"
  shows "dSdt \<le> 0 \<and> 0 \<le> dRdt"
  using assms by (auto simp add: deriv_Inr_iff divide_nonneg_pos)

lemma axpy_zero: "axpy a (0, 0, 0) y = y"
  by (cases y) (simp add: axpy_def)

lemma rk4_step_no_infected:
  "N \<noteq> 0 \<Longrightarrow> rk4_step (\<lambda>y s. deriv y s N beta gamma) tn h (S, 0, R) = Inr (S, 0, R)"
  by (simp add: rk4_step_def deriv_def axpy_zero)

lemma odeint_from_no_infected:
  "N \<noteq> 0 \<Longrightarrow>
   odeint_from (\<lambda>y s. deriv y s N beta gamma) (S, 0, R) tn ts =
     Inr (replicate (Suc (length ts)) (S, 0, R))"
  by (induction ts arbitrary: tn) (simp_all add: rk4_step_no_infected)

lemma odeint_from_suffix:
  "odeint_from f y tn ts = Inr ys \<Longrightarrow> i < length ys \<Longrightarrow>
   \<exists>tn'. odeint_from f (ys ! i) tn' (drop i ts) = Inr (drop i ys)"
proof (induction ts arbitrary: y tn ys i)
  case Nil
  then show ?case by auto
next
  case (Cons tn' ts)
  from Cons.prems(1) obtain y' ys' where
    rest: "odeint_from f y' tn' ts = Inr ys'" and ys: "ys = y # ys'"
    by (auto split: sum.splits)
  show ?case
  proof (cases i)
    case 0
    with Cons.prems(1) ys show ?thesis by (intro exI [of _ tn]) simp
  next
    case (Suc k)
    with Cons.prems(2) ys have "k < length ys'" by simp
    from Cons.IH [OF rest this] Suc ys show ?thesis by simp
  qed
qed

lemma odeint_from_stationary:
  assumes "N \<noteq> 0" and "odeint_from (\<lambda>y s. deriv y s N beta gamma) y tn ts = Inr ys"
    and "fst (snd y) = 0"
  shows "ys = replicate (Suc (length ts)) y"
proof -
  obtain S I R where y: "y = (S, I, R)" by (cases y)
  with assms(3) have "I = 0" by simp
  with assms(1,2) y show ?thesis
    using odeint_from_no_infected [of N beta gamma S R tn ts] by simp
qed

lemma odeint_stationary_after:
  assumes N: "N \<noteq> 0" and run: "odeint deriv y t (N, beta, gamma) = Inr ys"
    and ij: "i \<le> j" "j < length ys" and zero: "fst (snd (ys ! i)) = 0"
  shows "ys ! j = ys ! i"
proof -
  from run ij obtain t0 ts where
    from0: "odeint_from (\<lambda>y s. deriv y s N beta gamma) y t0 ts = Inr ys"
    by (cases t) (auto simp add: odeint_def)
  from ij have i: "i < length ys" by simp
  from odeint_from_suffix [OF from0 i] obtain tn' where
    "odeint_from (\<lambda>y s. deriv y s N beta gamma) (ys ! i) tn' (drop i ts) = Inr (drop i ys)" ..
  from odeint_from_stationary [OF N this zero]
  have d: "drop i ys = replicate (Suc (length (drop i ts))) (ys ! i)" .
  from ij have "ys ! j = drop i ys ! (j - i)" by simp
  also have "\<dots> = ys ! i"
  proof -
    from ij have "j - i < length (drop i ys)" by simp
    then have lt: "j - i < Suc (length (drop i ts))" using d by (metis length_replicate)
    show ?thesis by (subst d) (rule nth_replicate [OF lt])
  qed
  finally show ?thesis .
qed

lemma cell_integrate_unbound: "g_y0 g = None \<Longrightarrow> cell_integrate g = Inl NameError"
  by (simp add: cell_integrate_def load_def)


lemma ret_returns:
  "N \<noteq> 0 \<Longrightarrow> \<exists>ys. ret N I0 R0 beta gamma t = Inr ys \<and> length ys = length t"
proof (cases t)
  case Nil
  then show ?thesis by (simp add: ret_def odeint_def)
next
  case (Cons t0 ts)
  assume "N \<noteq> 0"
  then have "\<And>z s. \<exists>k. deriv z s N beta gamma = Inr k"
    by (rule deriv_returns)
  then obtain ys where ys: "odeint_from (\<lambda>y s. deriv y s N beta gamma) (y0 N I0 R0) t0 ts = Inr ys"
    using odeint_from_returns [of "\<lambda>y s. deriv y s N beta gamma"] by blast
  then have "length ys = length t"
    using Cons by (simp add: odeint_from_length)
  with ys Cons show ?thesis by (simp add: ret_def odeint_def)
qed

lemma ret_hd:
  assumes "ret N I0 R0 beta gamma t = Inr ys" and "t \<noteq> []"
  shows "ys \<noteq> [] \<and> hd ys = (N - I0 - R0, I0, R0)"
proof -
  from assms obtain t0 ts where
    "odeint_from (\<lambda>y s. deriv y s N beta gamma) (y0 N I0 R0) t0 ts = Inr ys"
    by (cases t) (auto simp add: ret_def odeint_def)
  then show ?thesis
    using odeint_from_hd by (fastforce simp add: y0_def S0_def)
qed

lemma ret_population:
  assumes "ret N I0 R0 beta gamma t = Inr ys"
  shows "\<forall>z \<in> set ys. population z = N"
proof (cases t)
  case Nil
  with assms show ?thesis by (auto simp add: ret_def odeint_def)
next
  case (Cons t0 ts)
  with assms have run: "odeint_from (\<lambda>y s. deriv y s N beta gamma) (y0 N I0 R0) t0 ts = Inr ys"
    by (simp add: ret_def odeint_def)
  have "\<forall>z \<in> set ys. population z = population (y0 N I0 R0)"
    by (rule odeint_from_population [OF _ run]) (rule deriv_population_zero)
  then show ?thesis
    by (simp add: y0_def S0_def population_def)
qed

lemma notebook_t_first: "notebook_t \<noteq> [] \<and> hd notebook_t = 0"
  by (simp add: notebook_t_def linspace_def hd_map)

section \<open>Properties of the right-hand side\<close>

text \<open>
  Claim C1. Applied to a state \<open>(S, I, R)\<close> with parameters \<open>(N, beta, gamma)\<close>,
  \<open>N \<noteq> 0\<close>, the function \<open>deriv\<close> returns exactly the triple
  \<open>(-beta*S*I/N, beta*S*I/N - gamma*I, gamma*I)\<close>: the right-hand side of the SIR equations
  as the specification writes it.
\<close>

theorem deriv_is_sir_rhs:
  "N \<noteq> 0 \<Longrightarrow>
   deriv (S, I, R) t N beta gamma =
     Inr (- (beta * S * I / N), beta * S * I / N - gamma * I, gamma * I)"
  by (simp add: deriv_def)

theorem deriv_is_sir_rhs_witness:
  "(1000::real) \<noteq> 0 \<and>
   deriv (999, 1, 0) 0 1000 (1/5) (1/10) =
     Inr (- ((1/5) * 999 * 1 / 1000), (1/5) * 999 * 1 / 1000 - (1/10) * 1, (1/10) * 1)"
  using deriv_is_sir_rhs [of 1000 999 1 0 0 "1/5" "1/10"] by simp

text \<open>
  Claim C2. For every state, every time and every parameter setting with \<open>N \<noteq> 0\<close>, the
  three components returned by \<open>deriv\<close> sum to zero exactly.
\<close>

theorem deriv_components_sum_zero:
  "N \<noteq> 0 \<Longrightarrow>
   (case deriv (S, I, R) t N beta gamma of
      Inl e \<Rightarrow> False
    | Inr (dSdt, dIdt, dRdt) \<Rightarrow> dSdt + dIdt + dRdt = 0)"
  by (simp add: deriv_def)

theorem deriv_components_sum_zero_witness:
  "(1000::real) \<noteq> 0 \<and>
   (case deriv (999, 1, 0) 0 1000 (1/5) (1/10) of
      Inl e \<Rightarrow> False
    | Inr (dSdt, dIdt, dRdt) \<Rightarrow> dSdt + dIdt + dRdt = 0)"
  using deriv_components_sum_zero [of 1000 999 1 0 0 "1/5" "1/10"] by simp

text \<open>
  Claim C9. The right-hand side is autonomous and does not read the recovered compartment:
  two calls of \<open>deriv\<close> that agree on \<open>S\<close>, \<open>I\<close>, \<open>N\<close>, \<open>beta\<close> and \<open>gamma\<close> return the same
  result, whatever their \<open>t\<close> and \<open>R\<close> are.
\<close>

theorem deriv_ignores_t_and_R:
  "deriv (S, I, R) t N beta gamma = deriv (S, I, R') t' N beta gamma"
  by (simp add: deriv_def)

text \<open>
  Claim C10. \<open>deriv\<close> divides by \<open>N\<close> with no guard. For every input with \<open>N \<noteq> 0\<close>, so
  for every \<open>N > 0\<close>, the call returns a triple and raises nothing; the division by zero is
  reached exactly when \<open>N = 0\<close>.
\<close>

theorem deriv_defined_iff_N_nonzero:
  "(N \<noteq> 0 \<longrightarrow> (\<exists>r. deriv y t N beta gamma = Inr r)) \<and>
   (0 < N \<longrightarrow> (\<exists>r. deriv y t N beta gamma = Inr r)) \<and>
   (deriv y t N beta gamma = Inl ZeroDivisionError \<longleftrightarrow> N = 0)"
  by (cases y) (auto simp add: deriv_def Let_def)

theorem deriv_defined_iff_N_nonzero_witness:
  "(1000::real) \<noteq> 0 \<and> (0::real) < 1000 \<and>
   (\<exists>r. deriv (999, 1, 0) 0 1000 (1/5) (1/10) = Inr r) \<and>
   deriv (999, 1, 0) 0 1000 (1/5) (1/10) \<noteq> Inl ZeroDivisionError \<and>
   deriv (999, 1, 0) 0 0 (1/5) (1/10) = Inl ZeroDivisionError"
  using deriv_defined_iff_N_nonzero [of 1000 "(999, 1, 0)" 0 "1/5" "1/10"]
        deriv_defined_iff_N_nonzero [of 0 "(999, 1, 0)" 0 "1/5" "1/10"]
  by simp

section \<open>Properties of the run\<close>

text \<open>
  Claim C3. Whenever the population is positive (indeed whenever it is not zero), the run
  returns the three series, one value for each point of the time grid, and at every sampled
  point \<open>S + I + R\<close> equals \<open>N\<close>: exactly, for the integrator in exact arithmetic, because
  the sum is a linear invariant of the right-hand side. The initial compartments add up to
  \<open>N\<close> by construction, since \<open>S0 = N - I0 - R0\<close>.
\<close>

theorem population_conserved_on_grid:
  "N \<noteq> 0 \<Longrightarrow>
   \<exists>S I R. S_I_R N I0 R0 beta gamma t = Inr (S, I, R) \<and>
     length S = length t \<and> length I = length t \<and> length R = length t \<and>
     (\<forall>i < length t. S ! i + I ! i + R ! i = N)"
proof -
  assume "N \<noteq> 0"
  then obtain ys where ys: "ret N I0 R0 beta gamma t = Inr ys" and len: "length ys = length t"
    using ret_returns by blast
  have sum: "fst (ys ! i) + fst (snd (ys ! i)) + snd (snd (ys ! i)) = N" if "i < length t" for i
  proof -
    from that len have "ys ! i \<in> set ys" by simp
    with ret_population [OF ys] have "population (ys ! i) = N" by blast
    then show ?thesis by (simp add: population_def case_prod_unfold)
  qed
  show ?thesis
    by (simp add: S_I_R_def ys len sum)
qed

theorem population_conserved_on_grid_witness:
  "(4::real) \<noteq> 0 \<and> spec_valid_input 4 1 1 1 1 \<and>
   (\<exists>S I R. S_I_R 4 1 1 1 1 [0, 1, 2] = Inr (S, I, R) \<and>
     length S = length [0, 1, 2::real] \<and> length I = length [0, 1, 2::real] \<and>
     length R = length [0, 1, 2::real] \<and>
     (\<forall>i < length [0, 1, 2::real]. S ! i + I ! i + R ! i = 4))"
  using population_conserved_on_grid [of 4 1 1 1 1 "[0, 1, 2]"]
  by (simp add: spec_valid_input_def)

text \<open>
  Claim C4, as amended. The notebook validates nothing: for every input, valid or not, the
  run is the call of the integrator on the initial state \<open>(N - I0 - R0, I0, R0)\<close>, the
  grid and the parameters \<open>(N, beta, gamma)\<close>, all passed on unchanged.
\<close>

theorem run_validates_nothing:
  "ret N I0 R0 beta gamma t = odeint deriv (N - I0 - R0, I0, R0) t (N, beta, gamma)"
  by (simp add: ret_def y0_def S0_def)

text \<open>
  The claim as the specification states it fails: a population of \<open>-1000\<close> is not a valid
  input, and the run does not reject it; it integrates and returns a trajectory.
\<close>

theorem invalid_input_is_integrated:
  "\<not> spec_valid_input (- 1000) 0 0 0.2 (1 / 10) \<and>
   ret (- 1000) 0 0 0.2 (1 / 10) [0, 1] = Inr [(- 1000, 0, 0), (- 1000, 0, 0)]"
  by (simp add: spec_valid_input_def ret_def odeint_def y0_def S0_def rk4_step_def
      deriv_def axpy_def)

text \<open>
  Claim C5. On a grid that has a first point, every trajectory the run returns starts with
  exactly \<open>(N - I0 - R0, I0, R0)\<close>, and the run does return one whenever \<open>N \<noteq> 0\<close>. For the
  notebook's own configuration the first grid point is \<open>0\<close> and the first sampled state is
  \<open>(999, 1, 0)\<close>.
\<close>

theorem first_sample_is_initial_state:
  "(t \<noteq> [] \<longrightarrow>
      (\<forall>ys. ret N I0 R0 beta gamma t = Inr ys \<longrightarrow> ys \<noteq> [] \<and> hd ys = (N - I0 - R0, I0, R0))) \<and>
   (t \<noteq> [] \<and> N \<noteq> 0 \<longrightarrow>
      (\<exists>ys. ret N I0 R0 beta gamma t = Inr ys \<and> ys \<noteq> [] \<and> hd ys = (N - I0 - R0, I0, R0))) \<and>
   hd notebook_t = 0 \<and>
   (\<exists>ys. notebook_ret = Inr ys \<and> ys \<noteq> [] \<and> hd ys = (999, 1, 0))"
proof (intro conjI impI allI)
  fix ys
  assume "t \<noteq> []" and "ret N I0 R0 beta gamma t = Inr ys"
  then show "ys \<noteq> []" and "hd ys = (N - I0 - R0, I0, R0)"
    using ret_hd by blast+
next
  assume "t \<noteq> [] \<and> N \<noteq> 0"
  then show "\<exists>ys. ret N I0 R0 beta gamma t = Inr ys \<and> ys \<noteq> [] \<and> hd ys = (N - I0 - R0, I0, R0)"
    using ret_returns [of N I0 R0 beta gamma t] ret_hd [of N I0 R0 beta gamma t] by blast
next
  show "hd notebook_t = 0"
    using notebook_t_first by simp
next
  obtain ys where ys: "ret 1000 1 0 0.2 (1 / 10) notebook_t = Inr ys"
    using ret_returns [of 1000 1 0 "0.2" "1 / 10" notebook_t] by auto
  from ret_hd [OF ys] notebook_t_first have "ys \<noteq> [] \<and> hd ys = (999, 1, 0)"
    by simp
  with ys show "\<exists>ys. notebook_ret = Inr ys \<and> ys \<noteq> [] \<and> hd ys = (999, 1, 0)"
    by (simp add: notebook_ret_def)
qed

theorem first_sample_is_initial_state_witness:
  "[0, 1::real] \<noteq> [] \<and> (4::real) \<noteq> 0 \<and>
   (\<exists>ys. ret 4 1 1 1 1 [0, 1] = Inr ys \<and> ys \<noteq> [] \<and> hd ys = (2, 1, 1))"
  using first_sample_is_initial_state [of "[0, 1]" 4 1 1 1 1] by simp

text \<open>
  Claim C7. In a state with no infected, \<open>deriv\<close> returns \<open>(0, 0, 0)\<close> for every \<open>t\<close>,
  \<open>beta\<close>, \<open>gamma\<close> and every \<open>N \<noteq> 0\<close>, so the system is stationary: an integration that
  starts from such a state keeps all three compartments unchanged at every point of the
  grid, and in any integration, once a sampled state has no infected, every later sampled
  state is equal to it.
\<close>

theorem no_infected_is_stationary:
  "N \<noteq> 0 \<Longrightarrow>
   deriv (S, 0, R) s N beta gamma = Inr (0, 0, 0) \<and>
   odeint deriv (S, 0, R) t (N, beta, gamma) = Inr (replicate (length t) (S, 0, R)) \<and>
   (\<forall>y ys i j. odeint deriv y t (N, beta, gamma) = Inr ys \<longrightarrow> i \<le> j \<longrightarrow> j < length ys \<longrightarrow>
      fst (snd (ys ! i)) = 0 \<longrightarrow> ys ! j = ys ! i)"
proof (intro conjI allI impI)
  assume "N \<noteq> 0"
  then show "deriv (S, 0, R) s N beta gamma = Inr (0, 0, 0)"
    by (simp add: deriv_def)
next
  assume "N \<noteq> 0"
  then show "odeint deriv (S, 0, R) t (N, beta, gamma) = Inr (replicate (length t) (S, 0, R))"
    by (cases t) (simp_all add: odeint_def odeint_from_no_infected)
next
  fix y ys i j
  assume "N \<noteq> 0" "odeint deriv y t (N, beta, gamma) = Inr ys" "i \<le> j" "j < length ys"
    "fst (snd (ys ! i)) = 0"
  then show "ys ! j = ys ! i"
    by (rule odeint_stationary_after)
qed

theorem no_infected_is_stationary_witness:
  "(1000::real) \<noteq> 0 \<and>
   deriv (600, 0, 400) 7 1000 0.2 (1 / 10) = Inr (0, 0, 0) \<and>
   odeint deriv (600, 0, 400) [7, 8, 9] (1000, 0.2, 1 / 10) =
     Inr [(600, 0, 400), (600, 0, 400), (600, 0, 400)]"
  using no_infected_is_stationary [of 1000 600 400 7 "0.2" "1 / 10" "[7, 8, 9]"]
  by (simp add: numeral_3_eq_3)


end
